theory Spec2Isabelle
  imports Main "HOL-Library.Word"
begin

unbundle bit_operations_syntax

section \<open>FileGuard: the client-side envelope-encryption pipeline\<close>

text \<open>
  The program is the browser code of \<^verbatim>\<open>lib/crypto.ts\<close> (key derivation, key
  wrapping, chunk encryption) and of the two components that drive it,
  \<^verbatim>\<open>FileUpload\<close> (\<^verbatim>\<open>handleDrop\<close>) and \<^verbatim>\<open>FileList\<close> (\<^verbatim>\<open>handleDownload\<close>).
  Every cryptographic step is a call into the browser's \<^verbatim>\<open>window.crypto\<close>. The
  embedding therefore has two layers:
  \<^item> the program, written over a record \<open>platform\<close> whose fields are the operations
    of \<^verbatim>\<open>window.crypto\<close> and \<^verbatim>\<open>window.crypto.subtle\<close> that the source calls;
  \<^item> \<open>webcrypto\<close>, the platform as the W3C Web Cryptography recommendation
    describes it, over a record \<open>primitives\<close> of the ciphers themselves
    (PBKDF2 and AES-GCM), which stay parameters.
  A promise that rejects is a result \<open>Inl e\<close>; a promise that resolves is \<open>Inr v\<close>.
\<close>

subsection \<open>Data\<close>

type_synonym byte = "8 word"
type_synonym bytes = "byte list"

text \<open>A JavaScript string is a sequence of UTF-16 code units.\<close>

type_synonym jsstring = "16 word list"

text \<open>
  The entropy source, as the sequence of bytes it is going to deliver. Drawing
  \<open>n\<close> bytes returns the first \<open>n\<close> and leaves the rest.
\<close>

type_synonym rng = "nat \<Rightarrow> byte"

datatype error =
    TypeError
  | SyntaxError
  | NotSupportedError
  | InvalidAccessError
  | OperationError
  | DataError
  | NetworkError

datatype key_format = Raw

datatype usage = Encrypt | Decrypt | WrapKey | UnwrapKey | DeriveKey | DeriveBits

text \<open>
  An algorithm argument, in the shapes the source passes:
  \<^item> \<open>Name n\<close>: the string \<^verbatim>\<open>'AES-GCM'\<close>, or the object \<^verbatim>\<open>{ name: 'PBKDF2' }\<close>;
  \<^item> \<open>AesGcmParams iv\<close>: \<^verbatim>\<open>{ name: 'AES-GCM', iv: iv }\<close>;
  \<^item> \<open>AesKeyParams l\<close>: \<^verbatim>\<open>{ name: 'AES-GCM', length: l }\<close>;
  \<^item> \<open>Pbkdf2Params salt iterations hash\<close>:
    \<^verbatim>\<open>{ name: 'PBKDF2', salt, iterations, hash }\<close>.
\<close>

datatype algorithm =
    Name string
  | AesGcmParams bytes
  | AesKeyParams nat
  | Pbkdf2Params bytes nat string

record CryptoKey =
  key_alg :: string
  extractable :: bool
  usages :: "usage list"
  material :: bytes

record platform =
  getRandomValues :: "nat \<Rightarrow> rng \<Rightarrow> bytes \<times> rng"
  importKey :: "key_format \<Rightarrow> bytes \<Rightarrow> algorithm \<Rightarrow> bool \<Rightarrow> usage list \<Rightarrow> error + CryptoKey"
  deriveKey :: "algorithm \<Rightarrow> CryptoKey \<Rightarrow> algorithm \<Rightarrow> bool \<Rightarrow> usage list \<Rightarrow> error + CryptoKey"
  generateKey :: "algorithm \<Rightarrow> bool \<Rightarrow> usage list \<Rightarrow> rng \<Rightarrow> (error + CryptoKey) \<times> rng"
  wrapKey :: "key_format \<Rightarrow> CryptoKey \<Rightarrow> CryptoKey \<Rightarrow> algorithm \<Rightarrow> error + bytes"
  unwrapKey :: "key_format \<Rightarrow> bytes \<Rightarrow> CryptoKey \<Rightarrow> algorithm \<Rightarrow> algorithm \<Rightarrow> bool
                  \<Rightarrow> usage list \<Rightarrow> error + CryptoKey"
  encrypt :: "algorithm \<Rightarrow> CryptoKey \<Rightarrow> bytes \<Rightarrow> error + bytes"
  decrypt :: "algorithm \<Rightarrow> CryptoKey \<Rightarrow> bytes \<Rightarrow> error + bytes"

subsection \<open>TextEncoder\<close>

text \<open>
  \<^verbatim>\<open>new TextEncoder().encode(s)\<close> first converts \<open>s\<close> to a sequence of Unicode scalar
  values (a surrogate pair is one scalar value, a surrogate on its own becomes
  U+FFFD), then writes each scalar value in UTF-8.
\<close>

definition is_lead :: "16 word \<Rightarrow> bool" where
  "is_lead u = (0xD800 \<le> unat u \<and> unat u \<le> 0xDBFF)"

definition is_trail :: "16 word \<Rightarrow> bool" where
  "is_trail u = (0xDC00 \<le> unat u \<and> unat u \<le> 0xDFFF)"

definition lone :: "16 word \<Rightarrow> nat" where
  "lone u = (if is_lead u \<or> is_trail u then 0xFFFD else unat u)"

fun scalar_values :: "jsstring \<Rightarrow> nat list" where
  "scalar_values [] = []"
| "scalar_values [u] = [lone u]"
| "scalar_values (u # v # us) =
     (if is_lead u \<and> is_trail v
      then (0x10000 + (unat u - 0xD800) * 0x400 + (unat v - 0xDC00)) # scalar_values us
      else lone u # scalar_values (v # us))"

definition utf8_bytes :: "nat \<Rightarrow> bytes" where
  "utf8_bytes c =
     (if c < 0x80 then [of_nat c]
      else if c < 0x800 then [of_nat (0xC0 + c div 0x40), of_nat (0x80 + c mod 0x40)]
      else if c < 0x10000 then
        [of_nat (0xE0 + c div 0x1000), of_nat (0x80 + (c div 0x40) mod 0x40),
         of_nat (0x80 + c mod 0x40)]
      else
        [of_nat (0xF0 + c div 0x40000), of_nat (0x80 + (c div 0x1000) mod 0x40),
         of_nat (0x80 + (c div 0x40) mod 0x40), of_nat (0x80 + c mod 0x40)])"

definition TextEncoder_encode :: "jsstring \<Rightarrow> bytes" where
  "TextEncoder_encode s = concat (map utf8_bytes (scalar_values s))"

subsection \<open>The program: \<^verbatim>\<open>lib/crypto.ts\<close>\<close>

definition deriveKeyFromPassword :: "platform \<Rightarrow> jsstring \<Rightarrow> bytes \<Rightarrow> error + CryptoKey" where
  "deriveKeyFromPassword S password salt =
     (case importKey S Raw (TextEncoder_encode password) (Name ''PBKDF2'') False [DeriveKey] of
        Inl e \<Rightarrow> Inl e
      | Inr keyMaterial \<Rightarrow>
          deriveKey S (Pbkdf2Params salt 100000 ''SHA-256'') keyMaterial
            (AesKeyParams 256) True [WrapKey, UnwrapKey])"

definition getKEK :: "platform \<Rightarrow> jsstring \<Rightarrow> jsstring \<Rightarrow> error + CryptoKey" where
  "getKEK S password salt =
     (let saltBytes = TextEncoder_encode salt
      in deriveKeyFromPassword S password saltBytes)"

definition generateDEK :: "platform \<Rightarrow> rng \<Rightarrow> (error + CryptoKey) \<times> rng" where
  "generateDEK S r = generateKey S (AesKeyParams 256) True [Encrypt, Decrypt] r"

definition wrapDEK :: "platform \<Rightarrow> CryptoKey \<Rightarrow> CryptoKey \<Rightarrow> error + bytes" where
  "wrapDEK S dek kek = wrapKey S Raw dek kek (Name ''AES-GCM'')"

definition unwrapDEK :: "platform \<Rightarrow> bytes \<Rightarrow> CryptoKey \<Rightarrow> error + CryptoKey" where
  "unwrapDEK S wrappedDek kek =
     unwrapKey S Raw wrappedDek kek (Name ''AES-GCM'') (AesKeyParams 256) True [Encrypt, Decrypt]"

text \<open>
  \<^verbatim>\<open>encryptChunk\<close> draws 12 bytes for the IV, encrypts, and copies the IV and
  the encrypted chunk one after the other into a new array.
\<close>

definition encryptChunk :: "platform \<Rightarrow> bytes \<Rightarrow> CryptoKey \<Rightarrow> rng \<Rightarrow> (error + bytes) \<times> rng" where
  "encryptChunk S chunk dek r =
     (let (iv, r') = getRandomValues S 12 r
      in case encrypt S (AesGcmParams iv) dek chunk of
           Inl e \<Rightarrow> (Inl e, r')
         | Inr encryptedChunk \<Rightarrow> (Inr (iv @ encryptedChunk), r'))"

text \<open>
  \<^verbatim>\<open>slice(0, 12)\<close> and \<^verbatim>\<open>slice(12)\<close> clamp to the length of the buffer, as
  \<open>take\<close> and \<open>drop\<close> do.
\<close>

definition decryptChunk :: "platform \<Rightarrow> bytes \<Rightarrow> CryptoKey \<Rightarrow> error + bytes" where
  "decryptChunk S encryptedChunkWithIv dek =
     (let iv = take 12 encryptedChunkWithIv;
          encryptedChunk = drop 12 encryptedChunkWithIv
      in decrypt S (AesGcmParams iv) dek encryptedChunk)"

subsection \<open>The platform: Web Cryptography as the W3C recommendation describes it\<close>

text \<open>
  This part is not code of the repository: it is the browser interface the
  repository calls. It writes down, from the W3C Web Cryptography API
  recommendation, what the methods of \<^verbatim>\<open>SubtleCrypto\<close> do with the arguments the
  source passes: the normalization of the algorithm argument, the checks on keys
  and usages, and the AES-GCM and PBKDF2 operations. Errors carry the names the
  recommendation gives them; a tag that does not verify is an \<open>OperationError\<close>.
\<close>

text \<open>
  The ciphers: PBKDF2 (hash name, password, salt, iterations, length in bits) and
  AES-GCM with a 128-bit tag and no additional data (key, IV, data).
  \<open>gcm_encrypt\<close> returns the ciphertext followed by the tag; \<open>gcm_decrypt\<close>
  returns \<open>None\<close> when the tag does not verify.
\<close>

record primitives =
  pbkdf2 :: "string \<Rightarrow> bytes \<Rightarrow> bytes \<Rightarrow> nat \<Rightarrow> nat \<Rightarrow> bytes"
  gcm_encrypt :: "bytes \<Rightarrow> bytes \<Rightarrow> bytes \<Rightarrow> bytes"
  gcm_decrypt :: "bytes \<Rightarrow> bytes \<Rightarrow> bytes \<Rightarrow> bytes option"

datatype operation =
  OpEncrypt | OpDecrypt | OpWrapKey | OpUnwrapKey | OpDeriveBits | OpImportKey
| OpGenerateKey | OpGetKeyLength

fun alg_name :: "algorithm \<Rightarrow> string" where
  "alg_name (Name n) = n"
| "alg_name (AesGcmParams iv) = ''AES-GCM''"
| "alg_name (AesKeyParams l) = ''AES-GCM''"
| "alg_name (Pbkdf2Params salt iterations h) = ''PBKDF2''"

text \<open>
  Normalizing an algorithm for an operation: the name selects the dictionary type
  registered for the operation, and the argument is converted to it. A required
  member that is missing is a \<open>TypeError\<close>: \<^verbatim>\<open>iv\<close> for AES-GCM encryption and
  decryption, \<^verbatim>\<open>length\<close> for AES key generation, \<^verbatim>\<open>salt\<close>, \<^verbatim>\<open>iterations\<close> and
  \<^verbatim>\<open>hash\<close> for PBKDF2. An operation the algorithm does not register is a
  \<open>NotSupportedError\<close>; AES-GCM registers neither \<^verbatim>\<open>wrapKey\<close> nor \<^verbatim>\<open>unwrapKey\<close>.
\<close>

definition normalize :: "operation \<Rightarrow> algorithm \<Rightarrow> error + algorithm" where
  "normalize oper alg =
     (if alg_name alg = ''AES-GCM'' then
        (if oper = OpEncrypt \<or> oper = OpDecrypt then
           (case alg of AesGcmParams iv \<Rightarrow> Inr alg | _ \<Rightarrow> Inl TypeError)
         else if oper = OpGenerateKey \<or> oper = OpGetKeyLength then
           (case alg of AesKeyParams l \<Rightarrow> Inr alg | _ \<Rightarrow> Inl TypeError)
         else if oper = OpImportKey then Inr (Name ''AES-GCM'')
         else Inl NotSupportedError)
      else if alg_name alg = ''PBKDF2'' then
        (if oper = OpDeriveBits then
           (case alg of Pbkdf2Params salt iterations h \<Rightarrow> Inr alg | _ \<Rightarrow> Inl TypeError)
         else if oper = OpImportKey \<or> oper = OpGetKeyLength then Inr (Name ''PBKDF2'')
         else Inl NotSupportedError)
      else Inl NotSupportedError)"

definition w_getRandomValues :: "nat \<Rightarrow> rng \<Rightarrow> bytes \<times> rng" where
  "w_getRandomValues n r = (map r [0..<n], \<lambda>i. r (i + n))"

text \<open>
  Importing a raw key. A PBKDF2 key takes only the usages \<^verbatim>\<open>deriveKey\<close> and
  \<^verbatim>\<open>deriveBits\<close> and is never extractable; an AES key has 128, 192 or 256 bits.
  A secret key with no usage is a \<open>SyntaxError\<close>.
\<close>

definition w_importKey ::
  "key_format \<Rightarrow> bytes \<Rightarrow> algorithm \<Rightarrow> bool \<Rightarrow> usage list \<Rightarrow> error + CryptoKey" where
  "w_importKey fmt keyData alg ext us =
     (case normalize OpImportKey alg of
        Inl e \<Rightarrow> Inl e
      | Inr a \<Rightarrow>
          if alg_name a = ''PBKDF2'' then
            (if \<not> set us \<subseteq> {DeriveKey, DeriveBits} then Inl SyntaxError
             else if ext then Inl SyntaxError
             else if us = [] then Inl SyntaxError
             else Inr \<lparr>key_alg = ''PBKDF2'', extractable = False, usages = us,
                       material = keyData\<rparr>)
          else
            (if \<not> set us \<subseteq> {Encrypt, Decrypt, WrapKey, UnwrapKey} then Inl SyntaxError
             else if length keyData * 8 \<notin> {128, 192, 256} then Inl DataError
             else if us = [] then Inl SyntaxError
             else Inr \<lparr>key_alg = ''AES-GCM'', extractable = ext, usages = us,
                       material = keyData\<rparr>))"

definition hash_names :: "string list" where
  "hash_names = [''SHA-1'', ''SHA-256'', ''SHA-384'', ''SHA-512'']"

definition w_deriveBits :: "primitives \<Rightarrow> algorithm \<Rightarrow> CryptoKey \<Rightarrow> nat \<Rightarrow> error + bytes" where
  "w_deriveBits P alg baseKey len =
     (case alg of
        Pbkdf2Params salt iterations h \<Rightarrow>
          if len mod 8 \<noteq> 0 then Inl OperationError
          else if h \<notin> set hash_names then Inl NotSupportedError
          else if iterations = 0 then Inl OperationError
          else Inr (pbkdf2 P h (material baseKey) salt iterations len)
      | _ \<Rightarrow> Inl NotSupportedError)"

definition w_deriveKey ::
  "primitives \<Rightarrow> algorithm \<Rightarrow> CryptoKey \<Rightarrow> algorithm \<Rightarrow> bool \<Rightarrow> usage list \<Rightarrow> error + CryptoKey" where
  "w_deriveKey P alg baseKey derivedKeyType ext us =
     (case normalize OpDeriveBits alg of
        Inl e \<Rightarrow> Inl e
      | Inr a \<Rightarrow>
     (case normalize OpImportKey derivedKeyType of
        Inl e \<Rightarrow> Inl e
      | Inr ai \<Rightarrow>
     (case normalize OpGetKeyLength derivedKeyType of
        Inl e \<Rightarrow> Inl e
      | Inr al \<Rightarrow>
          if alg_name a \<noteq> key_alg baseKey then Inl InvalidAccessError
          else if DeriveKey \<notin> set (usages baseKey) then Inl InvalidAccessError
          else (case al of
                  AesKeyParams len \<Rightarrow>
                    if len \<notin> {128, 192, 256} then Inl OperationError
                    else (case w_deriveBits P a baseKey len of
                            Inl e \<Rightarrow> Inl e
                          | Inr secret \<Rightarrow> w_importKey Raw secret ai ext us)
                | _ \<Rightarrow> Inl NotSupportedError))))"

definition w_generateKey ::
  "algorithm \<Rightarrow> bool \<Rightarrow> usage list \<Rightarrow> rng \<Rightarrow> (error + CryptoKey) \<times> rng" where
  "w_generateKey alg ext us r =
     (case normalize OpGenerateKey alg of
        Inl e \<Rightarrow> (Inl e, r)
      | Inr a \<Rightarrow>
          (case a of
             AesKeyParams len \<Rightarrow>
               if \<not> set us \<subseteq> {Encrypt, Decrypt, WrapKey, UnwrapKey} then (Inl SyntaxError, r)
               else if len \<notin> {128, 192, 256} then (Inl OperationError, r)
               else if us = [] then (Inl SyntaxError, r)
               else (let (k, r') = w_getRandomValues (len div 8) r
                     in (Inr \<lparr>key_alg = ''AES-GCM'', extractable = ext, usages = us,
                               material = k\<rparr>, r'))
           | _ \<Rightarrow> (Inl NotSupportedError, r)))"

text \<open>
  The AES-GCM operations. Decryption rejects data shorter than the tag before it
  looks at the tag. (Encryption also rejects a plaintext longer than \<open>2^39 - 256\<close>
  bytes, which is more than a byte buffer of the browser can hold; that check is
  not modelled.)
\<close>

definition aes_gcm_encrypt :: "primitives \<Rightarrow> algorithm \<Rightarrow> CryptoKey \<Rightarrow> bytes \<Rightarrow> error + bytes" where
  "aes_gcm_encrypt P alg key plaintext =
     (case alg of
        AesGcmParams iv \<Rightarrow> Inr (gcm_encrypt P (material key) iv plaintext)
      | _ \<Rightarrow> Inl NotSupportedError)"

definition aes_gcm_decrypt :: "primitives \<Rightarrow> algorithm \<Rightarrow> CryptoKey \<Rightarrow> bytes \<Rightarrow> error + bytes" where
  "aes_gcm_decrypt P alg key ciphertext =
     (case alg of
        AesGcmParams iv \<Rightarrow>
          if length ciphertext < 16 then Inl OperationError
          else (case gcm_decrypt P (material key) iv ciphertext of
                  None \<Rightarrow> Inl OperationError
                | Some plaintext \<Rightarrow> Inr plaintext)
      | _ \<Rightarrow> Inl NotSupportedError)"

definition w_encrypt :: "primitives \<Rightarrow> algorithm \<Rightarrow> CryptoKey \<Rightarrow> bytes \<Rightarrow> error + bytes" where
  "w_encrypt P alg key plaintext =
     (case normalize OpEncrypt alg of
        Inl e \<Rightarrow> Inl e
      | Inr a \<Rightarrow>
          if alg_name a \<noteq> key_alg key then Inl InvalidAccessError
          else if Encrypt \<notin> set (usages key) then Inl InvalidAccessError
          else aes_gcm_encrypt P a key plaintext)"

definition w_decrypt :: "primitives \<Rightarrow> algorithm \<Rightarrow> CryptoKey \<Rightarrow> bytes \<Rightarrow> error + bytes" where
  "w_decrypt P alg key ciphertext =
     (case normalize OpDecrypt alg of
        Inl e \<Rightarrow> Inl e
      | Inr a \<Rightarrow>
          if alg_name a \<noteq> key_alg key then Inl InvalidAccessError
          else if Decrypt \<notin> set (usages key) then Inl InvalidAccessError
          else aes_gcm_decrypt P a key ciphertext)"

text \<open>
  \<^verbatim>\<open>wrapKey\<close> normalizes its algorithm for the operation \<^verbatim>\<open>wrapKey\<close> and, when
  that fails, for \<^verbatim>\<open>encrypt\<close>; when both fail the promise rejects with the second
  error. Then it exports the key and encrypts the exported bytes under the
  wrapping key. \<^verbatim>\<open>unwrapKey\<close> mirrors it with \<^verbatim>\<open>unwrapKey\<close> and \<^verbatim>\<open>decrypt\<close>, and
  imports the decrypted bytes.
\<close>

definition w_wrapKey ::
  "primitives \<Rightarrow> key_format \<Rightarrow> CryptoKey \<Rightarrow> CryptoKey \<Rightarrow> algorithm \<Rightarrow> error + bytes" where
  "w_wrapKey P fmt key wrappingKey wrapAlgorithm =
     (case (case normalize OpWrapKey wrapAlgorithm of
              Inl e \<Rightarrow> normalize OpEncrypt wrapAlgorithm
            | Inr a \<Rightarrow> Inr a) of
        Inl e \<Rightarrow> Inl e
      | Inr a \<Rightarrow>
          if alg_name a \<noteq> key_alg wrappingKey then Inl InvalidAccessError
          else if WrapKey \<notin> set (usages wrappingKey) then Inl InvalidAccessError
          else if key_alg key \<noteq> ''AES-GCM'' then Inl NotSupportedError
          else if \<not> extractable key then Inl InvalidAccessError
          else aes_gcm_encrypt P a wrappingKey (material key))"

definition w_unwrapKey ::
  "primitives \<Rightarrow> key_format \<Rightarrow> bytes \<Rightarrow> CryptoKey \<Rightarrow> algorithm \<Rightarrow> algorithm \<Rightarrow> bool
     \<Rightarrow> usage list \<Rightarrow> error + CryptoKey" where
  "w_unwrapKey P fmt wrappedKey unwrappingKey unwrapAlgorithm unwrappedKeyAlgorithm ext us =
     (case (case normalize OpUnwrapKey unwrapAlgorithm of
              Inl e \<Rightarrow> normalize OpDecrypt unwrapAlgorithm
            | Inr a \<Rightarrow> Inr a) of
        Inl e \<Rightarrow> Inl e
      | Inr a \<Rightarrow>
     (case normalize OpImportKey unwrappedKeyAlgorithm of
        Inl e \<Rightarrow> Inl e
      | Inr ai \<Rightarrow>
          if alg_name a \<noteq> key_alg unwrappingKey then Inl InvalidAccessError
          else if UnwrapKey \<notin> set (usages unwrappingKey) then Inl InvalidAccessError
          else (case aes_gcm_decrypt P a unwrappingKey wrappedKey of
                  Inl e \<Rightarrow> Inl e
                | Inr keyBytes \<Rightarrow> w_importKey fmt keyBytes ai ext us)))"

definition webcrypto :: "primitives \<Rightarrow> platform" where
  "webcrypto P =
     \<lparr>getRandomValues = w_getRandomValues,
      importKey = w_importKey,
      deriveKey = w_deriveKey P,
      generateKey = w_generateKey,
      wrapKey = w_wrapKey P,
      unwrapKey = w_unwrapKey P,
      encrypt = w_encrypt P,
      decrypt = w_decrypt P\<rparr>"

subsection \<open>The program: \<^verbatim>\<open>FileUpload\<close> and \<^verbatim>\<open>FileList\<close>\<close>

text \<open>
  The backend, seen from the client: what each request answers. A request that
  fails (axios raises) answers \<open>Inl e\<close>. Byte fields travel in base64; the model
  carries the bytes themselves.
\<close>

record backend =
  get_salt :: "error + bytes"
  post_init :: "bytes \<Rightarrow> nat \<Rightarrow> string \<Rightarrow> bytes \<Rightarrow> error + string"
  post_chunk :: "string \<Rightarrow> bytes \<Rightarrow> error + unit"
  post_complete :: "string \<Rightarrow> error + unit"
  get_download :: "string \<Rightarrow> error + bytes"

text \<open>
  Both components hand the salt, a \<^verbatim>\<open>Buffer\<close>, to \<^verbatim>\<open>getKEK\<close>, whose parameter is a
  string: \<^verbatim>\<open>TextEncoder.encode\<close> converts its argument to a string first, which
  for a \<^verbatim>\<open>Buffer\<close> is \<^verbatim>\<open>Buffer.toString()\<close>. That conversion and
  \<^verbatim>\<open>TextDecoder.decode\<close> are parameters.
\<close>

record decoders =
  Buffer_toString :: "bytes \<Rightarrow> jsstring"
  TextDecoder_decode :: "bytes \<Rightarrow> jsstring"

record JsFile =
  file_name :: jsstring
  file_type :: string
  file_bytes :: bytes

record FileMetadata =
  file_id :: string
  original_filename_encrypted :: bytes
  size_bytes :: nat
  mime_type :: string
  updated_at :: string
  wrapped_dek :: bytes

datatype notification =
  AuthenticationError | PasswordRequired | UploadComplete | UploadFailed | DownloadFailed

text \<open>The uploads the backend has acknowledged.\<close>

datatype request =
    PostInit bytes nat string bytes
  | PostChunk string bytes
  | PostComplete string

definition CHUNK_SIZE :: nat where
  "CHUNK_SIZE = 4 * 1024 * 1024"

text \<open>
  The loop of \<^verbatim>\<open>handleDrop\<close>: \<^verbatim>\<open>file.slice(offset, offset + CHUNK_SIZE)\<close> is
  encrypted and posted, and \<open>offset\<close> moves on by \<open>CHUNK_SIZE\<close>. \<open>sent\<close> collects
  the encrypted chunks the backend has acknowledged, in order.
\<close>

function upload_loop ::
  "platform \<Rightarrow> backend \<Rightarrow> string \<Rightarrow> CryptoKey \<Rightarrow> bytes \<Rightarrow> nat \<Rightarrow> rng \<Rightarrow> bytes list
     \<Rightarrow> (error + unit) \<times> bytes list \<times> rng" where
  "upload_loop S B fileId dek file offset r sent =
     (if offset < length file then
        (let chunk = take CHUNK_SIZE (drop offset file)
         in case encryptChunk S chunk dek r of
              (Inl e, r') \<Rightarrow> (Inl e, sent, r')
            | (Inr encryptedChunk, r') \<Rightarrow>
                (case post_chunk B fileId encryptedChunk of
                   Inl e \<Rightarrow> (Inl e, sent, r')
                 | Inr u \<Rightarrow>
                     upload_loop S B fileId dek file (offset + CHUNK_SIZE) r'
                       (sent @ [encryptedChunk])))
      else (Inr (), sent, r))"
  by pat_completeness auto
termination
  by (relation "measure (\<lambda>(S, B, fileId, dek, file, offset, r, sent). length file - offset)")
     (auto simp add: CHUNK_SIZE_def)

text \<open>The slices the loop takes, one after the other.\<close>

function slices :: "bytes \<Rightarrow> nat \<Rightarrow> bytes list" where
  "slices file offset =
     (if offset < length file
      then take CHUNK_SIZE (drop offset file) # slices file (offset + CHUNK_SIZE)
      else [])"
  by pat_completeness auto
termination
  by (relation "measure (\<lambda>(file, offset). length file - offset)")
     (auto simp add: CHUNK_SIZE_def)

declare slices.simps [simp del]

definition handleDrop ::
  "decoders \<Rightarrow> platform \<Rightarrow> backend \<Rightarrow> string option \<Rightarrow> JsFile list \<Rightarrow> jsstring option \<Rightarrow> rng
     \<Rightarrow> notification \<times> request list \<times> rng" where
  "handleDrop D S B token files password r =
     (if token = None \<or> token = Some [] then (AuthenticationError, [], r)
      else
     (case generateDEK S r of
        (Inl e, r1) \<Rightarrow> (UploadFailed, [], r1)
      | (Inr dek, r1) \<Rightarrow>
     (case password of
        None \<Rightarrow> (PasswordRequired, [], r1)
      | Some pw \<Rightarrow>
          if pw = [] then (PasswordRequired, [], r1)
          else
     (case get_salt B of
        Inl e \<Rightarrow> (UploadFailed, [], r1)
      | Inr salt \<Rightarrow>
     (case getKEK S pw (Buffer_toString D salt) of
        Inl e \<Rightarrow> (UploadFailed, [], r1)
      | Inr kek \<Rightarrow>
     (case wrapDEK S dek kek of
        Inl e \<Rightarrow> (UploadFailed, [], r1)
      | Inr wrappedDek \<Rightarrow>
     (case files of
        [] \<Rightarrow> (UploadFailed, [], r1)
      | file # others \<Rightarrow>
     (case encryptChunk S (TextEncoder_encode (file_name file)) dek r1 of
        (Inl e, r2) \<Rightarrow> (UploadFailed, [], r2)
      | (Inr encryptedFilename, r2) \<Rightarrow>
     (case post_init B encryptedFilename (length (file_bytes file)) (file_type file)
             wrappedDek of
        Inl e \<Rightarrow> (UploadFailed, [], r2)
      | Inr fileId \<Rightarrow>
          (let init = PostInit encryptedFilename (length (file_bytes file)) (file_type file)
                        wrappedDek
           in case upload_loop S B fileId dek (file_bytes file) 0 r2 [] of
                (Inl e, sent, r3) \<Rightarrow> (UploadFailed, init # map (PostChunk fileId) sent, r3)
              | (Inr u, sent, r3) \<Rightarrow>
                  (case post_complete B fileId of
                     Inl e \<Rightarrow> (UploadFailed, init # map (PostChunk fileId) sent, r3)
                   | Inr u' \<Rightarrow>
                       (UploadComplete,
                        init # map (PostChunk fileId) sent @ [PostComplete fileId],
                        r3))))))))))))"

text \<open>
  What \<^verbatim>\<open>handleDownload\<close> leaves behind: nothing, a notification, or a download
  the browser saves (content, MIME type, file name).
\<close>

datatype download_outcome =
    Nothing
  | Notified notification
  | Saved bytes string jsstring

definition handleDownload ::
  "decoders \<Rightarrow> platform \<Rightarrow> backend \<Rightarrow> string option \<Rightarrow> jsstring option \<Rightarrow> FileMetadata
     \<Rightarrow> download_outcome" where
  "handleDownload D S B token password file =
     (if token = None \<or> token = Some [] then Nothing
      else
     (case password of
        None \<Rightarrow> Notified PasswordRequired
      | Some pw \<Rightarrow>
          if pw = [] then Notified PasswordRequired
          else
     (case get_salt B of
        Inl e \<Rightarrow> Notified DownloadFailed
      | Inr salt \<Rightarrow>
     (case getKEK S pw (Buffer_toString D salt) of
        Inl e \<Rightarrow> Notified DownloadFailed
      | Inr kek \<Rightarrow>
     (case unwrapDEK S (wrapped_dek file) kek of
        Inl e \<Rightarrow> Notified DownloadFailed
      | Inr dek \<Rightarrow>
     (case decryptChunk S (original_filename_encrypted file) dek of
        Inl e \<Rightarrow> Notified DownloadFailed
      | Inr decryptedFilenameBytes \<Rightarrow>
     (case get_download B (file_id file) of
        Inl e \<Rightarrow> Notified DownloadFailed
      | Inr data \<Rightarrow>
     (case decryptChunk S data dek of
        Inl e \<Rightarrow> Notified DownloadFailed
      | Inr decryptedContent \<Rightarrow>
          Saved decryptedContent (mime_type file)
            (TextDecoder_decode D decryptedFilenameBytes)))))))))"

text \<open>
  Modelled from the spec: the backend that stores the chunks is not among the
  sources. The specification and \<^verbatim>\<open>ARCHITECTURE.md\<close> have it combine the chunks
  of a file in upload order and serve the result as the content of the file.
\<close>

definition combine_chunks :: "bytes list \<Rightarrow> bytes" where
  "combine_chunks chunks = concat chunks"

subsection \<open>What is asked of the ciphers\<close>

text \<open>
  The theorems below ask of the ciphers what their standards give, on the keys
  and IVs the platform can hand them (an AES key of 128, 192 or 256 bits, an IV
  that is not empty): AES-GCM decrypts what it encrypted, under the same key and
  IV; the encrypted data is the plaintext's length plus the 16 bytes of the tag;
  PBKDF2 returns as many bytes as the bits it is asked for make up.
\<close>

definition valid_key :: "bytes \<Rightarrow> bool" where
  "valid_key k = (length k * 8 \<in> {128, 192, 256})"

definition gcm_correct :: "primitives \<Rightarrow> bool" where
  "gcm_correct P =
     (\<forall>k iv p. valid_key k \<and> iv \<noteq> [] \<longrightarrow> gcm_decrypt P k iv (gcm_encrypt P k iv p) = Some p)"

definition gcm_expands :: "primitives \<Rightarrow> bool" where
  "gcm_expands P =
     (\<forall>k iv p. valid_key k \<and> iv \<noteq> [] \<longrightarrow> length (gcm_encrypt P k iv p) = length p + 16)"

definition gcm_shrinks :: "primitives \<Rightarrow> bool" where
  "gcm_shrinks P =
     (\<forall>k iv c p. valid_key k \<and> gcm_decrypt P k iv c = Some p \<longrightarrow> length c = length p + 16)"

definition pbkdf2_length :: "primitives \<Rightarrow> bool" where
  "pbkdf2_length P = (\<forall>h pw salt n len. length (pbkdf2 P h pw salt n len) = len div 8)"

text \<open>
  A DEK is a key as \<^verbatim>\<open>generateDEK\<close> and \<^verbatim>\<open>unwrapDEK\<close> ask for it: an AES-GCM
  key that may encrypt and decrypt.
\<close>

definition is_DEK :: "CryptoKey \<Rightarrow> bool" where
  "is_DEK k =
     (key_alg k = ''AES-GCM'' \<and> valid_key (material k) \<and>
      Encrypt \<in> set (usages k) \<and> Decrypt \<in> set (usages k))"

text \<open>
  A small instance of the ciphers that meets these requirements, on which the
  theorems below are run at concrete inputs. It is not AES-GCM and protects
  nothing: the data is masked with a constant and the tag is a byte sum.
\<close>

definition simple_tag :: "bytes \<Rightarrow> bytes \<Rightarrow> bytes \<Rightarrow> bytes" where
  "simple_tag k iv c = replicate 16 (sum_list (k @ iv @ c))"

definition simple_encrypt :: "bytes \<Rightarrow> bytes \<Rightarrow> bytes \<Rightarrow> bytes" where
  "simple_encrypt k iv p = (let c = map (\<lambda>b. b XOR 0x5A) p in c @ simple_tag k iv c)"

definition simple_decrypt :: "bytes \<Rightarrow> bytes \<Rightarrow> bytes \<Rightarrow> bytes option" where
  "simple_decrypt k iv ct =
     (if length ct < 16 then None
      else (let c = take (length ct - 16) ct; t = drop (length ct - 16) ct
            in if t = simple_tag k iv c then Some (map (\<lambda>b. b XOR 0x5A) c) else None))"

definition simple_pbkdf2 :: "string \<Rightarrow> bytes \<Rightarrow> bytes \<Rightarrow> nat \<Rightarrow> nat \<Rightarrow> bytes" where
  "simple_pbkdf2 h pw salt n len = replicate (len div 8) (sum_list (pw @ salt))"

definition simple_primitives :: primitives where
  "simple_primitives =
     \<lparr>pbkdf2 = simple_pbkdf2, gcm_encrypt = simple_encrypt, gcm_decrypt = simple_decrypt\<rparr>"

definition simple_decoders :: decoders where
  "simple_decoders = \<lparr>Buffer_toString = map ucast, TextDecoder_decode = map ucast\<rparr>"

definition simple_dek :: CryptoKey where
  "simple_dek =
     \<lparr>key_alg = ''AES-GCM'', extractable = True, usages = [Encrypt, Decrypt],
      material = replicate 32 7\<rparr>"

definition simple_backend :: backend where
  "simple_backend =
     \<lparr>get_salt = Inr [1, 2, 3, 4, 5, 6, 7, 8, 9, 10, 11, 12, 13, 14, 15, 16],
      post_init = (\<lambda>encryptedFilename size mime wrappedDek. Inr ''f1''),
      post_chunk = (\<lambda>fileId chunk. Inr ()),
      post_complete = (\<lambda>fileId. Inr ()),
      get_download = (\<lambda>fileId. Inr [])\<rparr>"

text \<open>
  A platform that departs from the recommendation in one point: given the bare
  name \<^verbatim>\<open>'AES-GCM'\<close>, its \<^verbatim>\<open>wrapKey\<close> and \<^verbatim>\<open>unwrapKey\<close> take an all-zero IV
  instead of rejecting the call. On it the download gets past the unwrap step,
  which it never does on \<open>webcrypto\<close>. With it come the metadata of a file whose
  DEK is \<open>simple_dek\<close> wrapped under the KEK of the password \<^verbatim>\<open>"p"\<close>, and a backend
  that serves a content whose last byte has been changed.
\<close>

definition zero_iv :: "algorithm \<Rightarrow> algorithm" where
  "zero_iv alg = (case alg of Name n \<Rightarrow> AesGcmParams (replicate 12 0) | _ \<Rightarrow> alg)"

definition lenient_webcrypto :: "primitives \<Rightarrow> platform" where
  "lenient_webcrypto P =
     (webcrypto P)
       \<lparr>wrapKey := (\<lambda>fmt key wrappingKey alg. w_wrapKey P fmt key wrappingKey (zero_iv alg)),
        unwrapKey := (\<lambda>fmt wrappedKey unwrappingKey alg.
                        w_unwrapKey P fmt wrappedKey unwrappingKey (zero_iv alg))\<rparr>"

definition sealed_file :: FileMetadata where
  "sealed_file =
     \<lparr>file_id = ''f1'',
      original_filename_encrypted =
        [0, 1, 2, 3, 4, 5, 6, 7, 8, 9, 10, 11, 91, 88, 89] @ replicate 16 46,
      size_bytes = 3,
      mime_type = ''application/pdf'', updated_at = ''2024-01-01'',
      wrapped_dek = replicate 32 93 @ replicate 16 160\<rparr>"

definition tampering_backend :: backend where
  "tampering_backend =
     simple_backend
       \<lparr>get_download :=
          (\<lambda>fileId. Inr ([0, 1, 2, 3, 4, 5, 6, 7, 8, 9, 10, 11, 91, 88, 89]
                           @ replicate 15 46 @ [47]))\<rparr>"

section \<open>Properties\<close>

subsection \<open>The instance meets the requirements\<close>

lemma mask_twice: "(b XOR (0x5A::byte)) XOR 0x5A = b"
  by (simp add: xor.assoc)

lemma simple_correct: "gcm_correct simple_primitives"
  by (simp add: gcm_correct_def simple_primitives_def simple_encrypt_def simple_decrypt_def
      simple_tag_def Let_def comp_def mask_twice)

lemma simple_expands: "gcm_expands simple_primitives"
  by (simp add: gcm_expands_def simple_primitives_def simple_encrypt_def simple_tag_def Let_def)

lemma simple_shrinks: "gcm_shrinks simple_primitives"
  by (auto simp add: gcm_shrinks_def simple_primitives_def simple_decrypt_def Let_def
      split: if_splits)

lemma simple_pbkdf2_length: "pbkdf2_length simple_primitives"
  by (simp add: pbkdf2_length_def simple_primitives_def simple_pbkdf2_def)

lemma simple_dek_is_DEK: "is_DEK simple_dek"
  by (simp add: is_DEK_def valid_key_def simple_dek_def)

subsection \<open>The program on the platform\<close>

lemma encryptChunk_webcrypto:
  "encryptChunk (webcrypto P) chunk dek r =
     (if key_alg dek = ''AES-GCM'' \<and> Encrypt \<in> set (usages dek)
      then Inr (map r [0..<12] @ gcm_encrypt P (material dek) (map r [0..<12]) chunk)
      else Inl InvalidAccessError,
      \<lambda>i. r (i + 12))"
  by (simp add: encryptChunk_def webcrypto_def w_getRandomValues_def w_encrypt_def
      normalize_def aes_gcm_encrypt_def)

lemma decryptChunk_webcrypto:
  "decryptChunk (webcrypto P) blob dek =
     (if key_alg dek = ''AES-GCM'' \<and> Decrypt \<in> set (usages dek)
      then (if length blob < 28 then Inl OperationError
            else (case gcm_decrypt P (material dek) (take 12 blob) (drop 12 blob) of
                    None \<Rightarrow> Inl OperationError
                  | Some plaintext \<Rightarrow> Inr plaintext))
      else Inl InvalidAccessError)"
  by (auto simp add: decryptChunk_def webcrypto_def w_decrypt_def
      normalize_def aes_gcm_decrypt_def Let_def)

lemma wrapDEK_webcrypto: "wrapDEK (webcrypto P) dek kek = Inl TypeError"
  by (simp add: wrapDEK_def webcrypto_def w_wrapKey_def normalize_def)

lemma unwrapDEK_webcrypto: "unwrapDEK (webcrypto P) wrappedDek kek = Inl TypeError"
  by (simp add: unwrapDEK_def webcrypto_def w_unwrapKey_def normalize_def)

lemma getKEK_webcrypto:
  "pbkdf2_length P \<Longrightarrow> getKEK (webcrypto P) password salt =
     Inr \<lparr>key_alg = ''AES-GCM'', extractable = True, usages = [WrapKey, UnwrapKey],
          material = pbkdf2 P ''SHA-256'' (TextEncoder_encode password)
                       (TextEncoder_encode salt) 100000 256\<rparr>"
  by (simp add: getKEK_def deriveKeyFromPassword_def webcrypto_def w_importKey_def
      w_deriveKey_def w_deriveBits_def normalize_def hash_names_def pbkdf2_length_def)

lemma generateDEK_webcrypto:
  "generateDEK (webcrypto P) r =
     (Inr \<lparr>key_alg = ''AES-GCM'', extractable = True, usages = [Encrypt, Decrypt],
           material = map r [0..<32]\<rparr>, \<lambda>i. r (i + 32))"
  by (simp add: generateDEK_def webcrypto_def w_generateKey_def normalize_def
      w_getRandomValues_def)

lemma generateDEK_is_DEK:
  "case fst (generateDEK (webcrypto P) r) of Inl e \<Rightarrow> False | Inr dek \<Rightarrow> is_DEK dek"
  by (simp add: generateDEK_webcrypto is_DEK_def valid_key_def)

lemma encrypted_length:
  assumes "gcm_expands P" and "is_DEK k"
  shows "length (gcm_encrypt P (material k) (map r [0..<12]) p) = length p + 16"
proof -
  have "map r [0..<12] \<noteq> []" by simp
  moreover from assms(2) have "valid_key (material k)" by (simp add: is_DEK_def)
  ultimately show ?thesis using assms(1) unfolding gcm_expands_def by blast
qed

lemma encrypted_chunk_decrypts:
  assumes "gcm_correct P" and "gcm_expands P" and "is_DEK k"
  shows "decryptChunk (webcrypto P)
           (map r [0..<12] @ gcm_encrypt P (material k) (map r [0..<12]) p) k = Inr p"
  using assms
  by (simp add: decryptChunk_webcrypto is_DEK_def gcm_correct_def gcm_expands_def)

subsection \<open>Concrete inputs\<close>

lemma upt_12: "[0..<12] = [0, 1, 2, 3, 4, 5, 6, 7, 8, 9, 10, 11]"
  by code_simp

lemma nonces_differ:
  "map (of_nat :: nat \<Rightarrow> byte) [0..<12] \<noteq> map (\<lambda>i. of_nat (i + 12)) [0..<12]"
  by code_simp

lemma simple_kek:
  "getKEK (webcrypto simple_primitives) [0x70]
     (Buffer_toString simple_decoders [1, 2, 3, 4, 5, 6, 7, 8, 9, 10, 11, 12, 13, 14, 15, 16]) =
   Inr \<lparr>key_alg = ''AES-GCM'', extractable = True, usages = [WrapKey, UnwrapKey],
        material = replicate 32 248\<rparr>"
  unfolding getKEK_webcrypto [OF simple_pbkdf2_length]
  by (simp add: simple_primitives_def simple_pbkdf2_def TextEncoder_encode_def lone_def
      is_lead_def is_trail_def utf8_bytes_def simple_decoders_def)

lemma lenient_getKEK: "getKEK (lenient_webcrypto P) = getKEK (webcrypto P)"
  by (simp add: fun_eq_iff getKEK_def deriveKeyFromPassword_def lenient_webcrypto_def
      webcrypto_def split: sum.split)

lemma lenient_decryptChunk: "decryptChunk (lenient_webcrypto P) = decryptChunk (webcrypto P)"
  by (simp add: fun_eq_iff decryptChunk_def lenient_webcrypto_def webcrypto_def)

lemma sealed_unwrap:
  "unwrapDEK (lenient_webcrypto simple_primitives) (wrapped_dek sealed_file)
     \<lparr>key_alg = ''AES-GCM'', extractable = True, usages = [WrapKey, UnwrapKey],
      material = replicate 32 248\<rparr> = Inr simple_dek"
  by (simp add: unwrapDEK_def lenient_webcrypto_def zero_iv_def w_unwrapKey_def normalize_def
      aes_gcm_decrypt_def w_importKey_def sealed_file_def simple_primitives_def
      simple_decrypt_def simple_tag_def simple_dek_def sum_list_replicate)

lemma sealed_name:
  "decryptChunk (lenient_webcrypto simple_primitives) (original_filename_encrypted sealed_file)
     simple_dek = Inr [1, 2, 3]"
  by (simp add: lenient_decryptChunk decryptChunk_webcrypto simple_dek_def
      simple_primitives_def simple_decrypt_def simple_tag_def sum_list_replicate sealed_file_def)

lemma last_byte_changed: "t \<noteq> 47 \<Longrightarrow> replicate 15 (46::byte) @ [47] \<noteq> replicate 16 t"
proof
  assume "t \<noteq> 47" and "replicate 15 (46::byte) @ [47] = replicate 16 t"
  from this(2) have "last (replicate 15 (46::byte) @ [47]) = last (replicate 16 t)"
    by (rule arg_cong)
  with \<open>t \<noteq> 47\<close> show False by simp
qed

lemma tampered_content:
  "decryptChunk (lenient_webcrypto simple_primitives)
     ([0, 1, 2, 3, 4, 5, 6, 7, 8, 9, 10, 11, 91, 88, 89] @ replicate 15 46 @ [47])
     simple_dek = Inl OperationError"
  by (simp add: lenient_decryptChunk decryptChunk_webcrypto simple_dek_def
      simple_primitives_def simple_decrypt_def simple_tag_def sum_list_replicate
      last_byte_changed)

subsection \<open>Decryption on the platform\<close>

lemma decryptChunk_short_blob:
  "is_DEK dek \<Longrightarrow> length blob < 28 \<Longrightarrow> decryptChunk (webcrypto P) blob dek = Inl OperationError"
  by (simp add: decryptChunk_webcrypto is_DEK_def)

lemma decryptChunk_length:
  assumes "gcm_shrinks P" and "is_DEK dek" and "decryptChunk (webcrypto P) blob dek = Inr q"
  shows "length blob = length q + 28"
proof -
  from assms(3) have long: "28 \<le> length blob"
    and "gcm_decrypt P (material dek) (take 12 blob) (drop 12 blob) = Some q"
    by (auto simp add: decryptChunk_webcrypto split: if_splits option.splits)
  moreover from assms(2) have "valid_key (material dek)"
    by (simp add: is_DEK_def)
  ultimately have "length (drop 12 blob) = length q + 16"
    using assms(1) unfolding gcm_shrinks_def by blast
  with long show ?thesis by simp
qed

subsection \<open>Chunk cipher\<close>

text \<open>
  C1. For every plaintext \<open>p\<close> and every DEK \<open>k\<close>, \<^verbatim>\<open>encryptChunk\<close> returns a blob,
  and \<^verbatim>\<open>decryptChunk\<close> of that blob under \<open>k\<close> returns \<open>p\<close>, whatever nonce the
  entropy source delivered.
\<close>

theorem decryptChunk_encryptChunk:
  assumes "gcm_correct P" and "gcm_expands P" and "is_DEK k"
  shows "case fst (encryptChunk (webcrypto P) p k r) of
           Inl e \<Rightarrow> False
         | Inr blob \<Rightarrow> decryptChunk (webcrypto P) blob k = Inr p"
proof -
  from assms(3) have "fst (encryptChunk (webcrypto P) p k r) =
      Inr (map r [0..<12] @ gcm_encrypt P (material k) (map r [0..<12]) p)"
    by (simp add: encryptChunk_webcrypto is_DEK_def)
  with encrypted_chunk_decrypts [OF assms, of r p] show ?thesis
    by simp
qed

theorem decryptChunk_encryptChunk_witness:
  "gcm_correct simple_primitives \<and> gcm_expands simple_primitives \<and> is_DEK simple_dek \<and>
   fst (encryptChunk (webcrypto simple_primitives) [1, 2, 3] simple_dek of_nat) =
     Inr ([0, 1, 2, 3, 4, 5, 6, 7, 8, 9, 10, 11, 91, 88, 89] @ replicate 16 46) \<and>
   decryptChunk (webcrypto simple_primitives)
     ([0, 1, 2, 3, 4, 5, 6, 7, 8, 9, 10, 11, 91, 88, 89] @ replicate 16 46) simple_dek
     = Inr [1, 2, 3]"
proof -
  let ?W = "webcrypto simple_primitives"
  let ?blob = "[0, 1, 2, 3, 4, 5, 6, 7, 8, 9, 10, 11, 91, 88, 89] @ replicate 16 (46::byte)"
  have e: "fst (encryptChunk ?W [1, 2, 3] simple_dek of_nat) = Inr ?blob"
    by (simp add: encryptChunk_webcrypto simple_dek_def simple_primitives_def
        simple_encrypt_def simple_tag_def upt_12 sum_list_replicate)
  from decryptChunk_encryptChunk [OF simple_correct simple_expands simple_dek_is_DEK,
      of "[1, 2, 3]" of_nat]
  have "decryptChunk ?W ?blob simple_dek = Inr [1, 2, 3]"
    by (simp only: e sum.case)
  with e simple_correct simple_expands simple_dek_is_DEK show ?thesis
    by (intro conjI)
qed

text \<open>
  C10. The blob of \<^verbatim>\<open>encryptChunk\<close> is 28 bytes longer than the plaintext (12
  bytes of nonce, 16 of tag), and a plaintext that \<^verbatim>\<open>decryptChunk\<close> returns is 28
  bytes shorter than the blob it was given.
\<close>

theorem chunk_overhead_28:
  assumes "gcm_expands P" and "gcm_shrinks P" and "is_DEK k"
  shows "(case fst (encryptChunk (webcrypto P) p k r) of
            Inl e \<Rightarrow> False
          | Inr blob \<Rightarrow> length blob = length p + 28) \<and>
         (case decryptChunk (webcrypto P) blob k of
            Inl e \<Rightarrow> True
          | Inr q \<Rightarrow> length blob = length q + 28)"
proof -
  have "case fst (encryptChunk (webcrypto P) p k r) of
          Inl e \<Rightarrow> False
        | Inr blob \<Rightarrow> length blob = length p + 28"
    using assms by (simp add: encryptChunk_webcrypto is_DEK_def gcm_expands_def)
  moreover have "case decryptChunk (webcrypto P) blob k of
                   Inl e \<Rightarrow> True
                 | Inr q \<Rightarrow> length blob = length q + 28"
    using decryptChunk_length [OF assms(2) assms(3)] by (simp split: sum.split)
  ultimately show ?thesis by simp
qed

theorem chunk_overhead_28_witness:
  "gcm_expands simple_primitives \<and> gcm_shrinks simple_primitives \<and> is_DEK simple_dek \<and>
   fst (encryptChunk (webcrypto simple_primitives) [1, 2, 3] simple_dek of_nat) =
     Inr ([0, 1, 2, 3, 4, 5, 6, 7, 8, 9, 10, 11, 91, 88, 89] @ replicate 16 46) \<and>
   decryptChunk (webcrypto simple_primitives)
     ([0, 1, 2, 3, 4, 5, 6, 7, 8, 9, 10, 11, 91, 88, 89] @ replicate 16 46) simple_dek
     = Inr [1, 2, 3] \<and>
   length ([0, 1, 2, 3, 4, 5, 6, 7, 8, 9, 10, 11, 91, 88, 89] @ replicate 16 (46::byte))
     = length [1, 2, 3 :: byte] + 28"
proof -
  let ?W = "webcrypto simple_primitives"
  let ?blob = "[0, 1, 2, 3, 4, 5, 6, 7, 8, 9, 10, 11, 91, 88, 89] @ replicate 16 (46::byte)"
  have e: "fst (encryptChunk ?W [1, 2, 3] simple_dek of_nat) = Inr ?blob"
    by (simp add: encryptChunk_webcrypto simple_dek_def simple_primitives_def
        simple_encrypt_def simple_tag_def upt_12 sum_list_replicate)
  have d: "decryptChunk ?W ?blob simple_dek = Inr [1, 2, 3]"
    by (simp add: decryptChunk_webcrypto simple_dek_def simple_primitives_def
        simple_decrypt_def simple_tag_def sum_list_replicate)
  from chunk_overhead_28 [OF simple_expands simple_shrinks simple_dek_is_DEK,
      of "[1, 2, 3]" of_nat ?blob]
  have "length ?blob = length [1, 2, 3 :: byte] + 28"
    by (simp only: e d sum.case)
  with e d simple_expands simple_shrinks simple_dek_is_DEK show ?thesis
    by (intro conjI)
qed

lemma shifted_nonce: "map (\<lambda>i. r (i + 12)) [0..<12] = map r [12..<24]"
proof -
  have "[12..<24] = map (\<lambda>i. i + 12) [0..<12]"
    by (simp add: map_add_upt)
  then show ?thesis by (simp add: comp_def)
qed

lemma upt_12_24: "[12..<24] = [12, 13, 14, 15, 16, 17, 18, 19, 20, 21, 22, 23]"
  by code_simp

text \<open>
  C8. Every call of \<^verbatim>\<open>encryptChunk\<close> draws its nonce from the entropy source:
  the call takes the next 12 bytes, leaves the source 12 bytes further on, and
  returns those bytes followed by the AES-GCM encryption of the plaintext under
  the DEK and those bytes as IV. A second call on the same plaintext and key
  therefore takes the following 12 bytes as its IV. Two calls on the same
  plaintext and key whose nonces differ return different blobs.
\<close>

theorem fresh_nonce_distinct_blobs:
  assumes "is_DEK k"
  shows "encryptChunk (webcrypto P) p k r =
           (Inr (map r [0..<12] @ gcm_encrypt P (material k) (map r [0..<12]) p),
            \<lambda>i. r (i + 12)) \<and>
         fst (encryptChunk (webcrypto P) p k (snd (encryptChunk (webcrypto P) p k r))) =
           Inr (map r [12..<24] @ gcm_encrypt P (material k) (map r [12..<24]) p) \<and>
         snd (encryptChunk (webcrypto P) p k r) = (\<lambda>i. r (i + 12)) \<and>
         (case fst (encryptChunk (webcrypto P) p k r) of
            Inl e \<Rightarrow> False
          | Inr blob \<Rightarrow> take 12 blob = map r [0..<12]) \<and>
         (map r [0..<12] \<noteq> map r' [0..<12] \<longrightarrow>
            fst (encryptChunk (webcrypto P) p k r) \<noteq> fst (encryptChunk (webcrypto P) p k r'))"
proof -
  define iv where "iv = map r [0..<12]"
  define iv' where "iv' = map r' [0..<12]"
  have len: "length iv = 12" "length iv' = 12"
    by (simp_all add: iv_def iv'_def)
  have e: "encryptChunk (webcrypto P) p k r =
             (Inr (iv @ gcm_encrypt P (material k) iv p), \<lambda>i. r (i + 12))"
    using assms by (simp add: encryptChunk_webcrypto is_DEK_def iv_def)
  have e': "fst (encryptChunk (webcrypto P) p k r') =
              Inr (iv' @ gcm_encrypt P (material k) iv' p)"
    using assms by (simp add: encryptChunk_webcrypto is_DEK_def iv'_def)
  have second: "fst (encryptChunk (webcrypto P) p k (snd (encryptChunk (webcrypto P) p k r))) =
                  Inr (map r [12..<24] @ gcm_encrypt P (material k) (map r [12..<24]) p)"
    using assms
    by (simp only: encryptChunk_webcrypto snd_conv fst_conv shifted_nonce is_DEK_def) simp
  have "snd (encryptChunk (webcrypto P) p k r) = (\<lambda>i. r (i + 12)) \<and>
         (case fst (encryptChunk (webcrypto P) p k r) of
            Inl e \<Rightarrow> False
          | Inr blob \<Rightarrow> take 12 blob = iv) \<and>
         (iv \<noteq> iv' \<longrightarrow>
            fst (encryptChunk (webcrypto P) p k r) \<noteq> fst (encryptChunk (webcrypto P) p k r'))"
    using len by (simp add: e e')
  with e second show ?thesis unfolding iv_def iv'_def by (intro conjI) simp_all
qed

theorem fresh_nonce_distinct_blobs_witness:
  "is_DEK simple_dek \<and>
   map (of_nat :: nat \<Rightarrow> byte) [0..<12] \<noteq> map (\<lambda>i. of_nat (i + 12)) [0..<12] \<and>
   encryptChunk (webcrypto simple_primitives) [1, 2, 3] simple_dek of_nat =
     (Inr ([0, 1, 2, 3, 4, 5, 6, 7, 8, 9, 10, 11, 91, 88, 89] @ replicate 16 46),
      \<lambda>i. of_nat (i + 12)) \<and>
   fst (encryptChunk (webcrypto simple_primitives) [1, 2, 3] simple_dek (\<lambda>i. of_nat (i + 12))) =
     Inr ([12, 13, 14, 15, 16, 17, 18, 19, 20, 21, 22, 23, 91, 88, 89] @ replicate 16 190) \<and>
   fst (encryptChunk (webcrypto simple_primitives) [1, 2, 3] simple_dek of_nat) \<noteq>
   fst (encryptChunk (webcrypto simple_primitives) [1, 2, 3] simple_dek (\<lambda>i. of_nat (i + 12)))"
proof -
  let ?W = "webcrypto simple_primitives"
  note main = fresh_nonce_distinct_blobs [OF simple_dek_is_DEK, of simple_primitives "[1, 2, 3]"
      of_nat "\<lambda>i. of_nat (i + 12)"]
  have first: "encryptChunk ?W [1, 2, 3] simple_dek of_nat =
     (Inr ([0, 1, 2, 3, 4, 5, 6, 7, 8, 9, 10, 11, 91, 88, 89] @ replicate 16 46),
      \<lambda>i. of_nat (i + 12))"
    unfolding main [THEN conjunct1]
    by (simp add: simple_dek_def simple_primitives_def simple_encrypt_def simple_tag_def
        upt_12 sum_list_replicate)
  from main have "fst (encryptChunk ?W [1, 2, 3] simple_dek (snd (encryptChunk ?W [1, 2, 3] simple_dek of_nat))) =
      Inr (map of_nat [12..<24] @
           gcm_encrypt simple_primitives (material simple_dek) (map of_nat [12..<24]) [1, 2, 3])"
    by (rule conjunct2 [THEN conjunct1])
  then have second: "fst (encryptChunk ?W [1, 2, 3] simple_dek (\<lambda>i. of_nat (i + 12))) =
     Inr ([12, 13, 14, 15, 16, 17, 18, 19, 20, 21, 22, 23, 91, 88, 89] @ replicate 16 190)"
    unfolding first snd_conv
    by (simp add: simple_dek_def simple_primitives_def simple_encrypt_def simple_tag_def
        upt_12_24 sum_list_replicate)
  have differ: "fst (encryptChunk ?W [1, 2, 3] simple_dek of_nat) \<noteq>
                fst (encryptChunk ?W [1, 2, 3] simple_dek (\<lambda>i. of_nat (i + 12)))"
    by (rule main [THEN conjunct2, THEN conjunct2, THEN conjunct2, THEN conjunct2, THEN mp,
          OF nonces_differ])
  from simple_dek_is_DEK nonces_differ first second differ show ?thesis
    by (intro conjI)
qed

subsection \<open>Download\<close>

text \<open>
  C9. When the DEK cannot be unwrapped, or the file name cannot be decrypted, or
  the content cannot be decrypted, \<^verbatim>\<open>handleDownload\<close> ends with the notification
  that the download failed and nothing else: no download is handed to the
  browser, neither content nor file name.
\<close>

theorem download_aborts_on_failure:
  assumes "token = Some t" and "t \<noteq> []" and "pw \<noteq> []"
    and "get_salt B = Inr salt"
    and "getKEK S pw (Buffer_toString D salt) = Inr kek"
    and "unwrapDEK S (wrapped_dek file) kek = Inl e
         \<or> (unwrapDEK S (wrapped_dek file) kek = Inr dek
             \<and> decryptChunk S (original_filename_encrypted file) dek = Inl e)
         \<or> (unwrapDEK S (wrapped_dek file) kek = Inr dek
             \<and> get_download B (file_id file) = Inr data
             \<and> decryptChunk S data dek = Inl e)"
  shows "handleDownload D S B token (Some pw) file = Notified DownloadFailed"
  using assms by (auto simp add: handleDownload_def split: sum.splits)

theorem download_aborts_on_failure_witness:
  "get_salt tampering_backend = Inr [1, 2, 3, 4, 5, 6, 7, 8, 9, 10, 11, 12, 13, 14, 15, 16] \<and>
   getKEK (lenient_webcrypto simple_primitives) [0x70]
     (Buffer_toString simple_decoders [1, 2, 3, 4, 5, 6, 7, 8, 9, 10, 11, 12, 13, 14, 15, 16]) =
   Inr \<lparr>key_alg = ''AES-GCM'', extractable = True, usages = [WrapKey, UnwrapKey],
        material = replicate 32 248\<rparr> \<and>
   unwrapDEK (lenient_webcrypto simple_primitives) (wrapped_dek sealed_file)
     \<lparr>key_alg = ''AES-GCM'', extractable = True, usages = [WrapKey, UnwrapKey],
      material = replicate 32 248\<rparr> = Inr simple_dek \<and>
   decryptChunk (lenient_webcrypto simple_primitives) (original_filename_encrypted sealed_file)
     simple_dek = Inr [1, 2, 3] \<and>
   get_download tampering_backend (file_id sealed_file) =
     Inr ([0, 1, 2, 3, 4, 5, 6, 7, 8, 9, 10, 11, 91, 88, 89] @ replicate 15 46 @ [47]) \<and>
   decryptChunk (lenient_webcrypto simple_primitives)
     ([0, 1, 2, 3, 4, 5, 6, 7, 8, 9, 10, 11, 91, 88, 89] @ replicate 15 46 @ [47])
     simple_dek = Inl OperationError \<and>
   handleDownload simple_decoders (lenient_webcrypto simple_primitives) tampering_backend
     (Some ''t'') (Some [0x70]) sealed_file = Notified DownloadFailed"
proof -
  let ?kek = "\<lparr>key_alg = ''AES-GCM'', extractable = True, usages = [WrapKey, UnwrapKey],
      material = replicate 32 (248::byte)\<rparr>"
  let ?data = "[0, 1, 2, 3, 4, 5, 6, 7, 8, 9, 10, 11, 91, 88, 89] @ replicate 15 (46::byte) @ [47]"
  have salt: "get_salt tampering_backend =
                Inr [1, 2, 3, 4, 5, 6, 7, 8, 9, 10, 11, 12, 13, 14, 15, 16]"
    by (simp add: tampering_backend_def simple_backend_def)
  have kek: "getKEK (lenient_webcrypto simple_primitives) [0x70]
               (Buffer_toString simple_decoders
                  [1, 2, 3, 4, 5, 6, 7, 8, 9, 10, 11, 12, 13, 14, 15, 16]) = Inr ?kek"
    by (simp only: lenient_getKEK simple_kek)
  have content: "get_download tampering_backend (file_id sealed_file) = Inr ?data"
    by (simp add: tampering_backend_def)
  have "handleDownload simple_decoders (lenient_webcrypto simple_primitives) tampering_backend
          (Some ''t'') (Some [0x70]) sealed_file = Notified DownloadFailed"
    by (rule download_aborts_on_failure
          [OF refl _ _ salt kek disjI2 [OF disjI2 [OF conjI [OF sealed_unwrap
             conjI [OF content tampered_content]]]]])
       simp_all
  with salt kek sealed_unwrap sealed_name content tampered_content show ?thesis
    by (intro conjI)
qed

subsection \<open>Chunked upload and download\<close>

lemma upload_loop_webcrypto:
  assumes "gcm_expands P" and "is_DEK dek" and "\<forall>c. post_chunk B fid c = Inr ()"
  shows "\<exists>new r'. upload_loop (webcrypto P) B fid dek file offset r sent = (Inr (), sent @ new, r')
           \<and> length (concat new) = (length file - offset) + 28 * length new
           \<and> (offset < length file \<longrightarrow> 1 \<le> length new)
           \<and> (offset + CHUNK_SIZE < length file \<longrightarrow> 2 \<le> length new)"
proof (induction "length file - offset" arbitrary: offset r sent rule: less_induct)
  case less
  show ?case
  proof (cases "offset < length file")
    case False
    then show ?thesis by simp
  next
    case True
    let ?chunk = "take CHUNK_SIZE (drop offset file)"
    let ?blob = "map r [0..<12] @ gcm_encrypt P (material dek) (map r [0..<12]) ?chunk"
    have pos: "0 < CHUNK_SIZE" by (simp add: CHUNK_SIZE_def)
    have enc: "encryptChunk (webcrypto P) ?chunk dek r = (Inr ?blob, \<lambda>i. r (i + 12))"
      using assms(2) by (simp add: encryptChunk_webcrypto is_DEK_def)
    have len: "length ?blob = min CHUNK_SIZE (length file - offset) + 28"
      by (simp add: encrypted_length [OF assms(1) assms(2)] min_def)
    from True pos have "length file - (offset + CHUNK_SIZE) < length file - offset" by arith
    from less [OF this, of "\<lambda>i. r (i + 12)" "sent @ [?blob]"]
    obtain new r' where rec:
      "upload_loop (webcrypto P) B fid dek file (offset + CHUNK_SIZE) (\<lambda>i. r (i + 12))
         (sent @ [?blob]) = (Inr (), (sent @ [?blob]) @ new, r')"
      "length (concat new) = (length file - (offset + CHUNK_SIZE)) + 28 * length new"
      "offset + CHUNK_SIZE < length file \<longrightarrow> 1 \<le> length new"
      by blast
    have step: "upload_loop (webcrypto P) B fid dek file offset r sent =
                  (Inr (), sent @ (?blob # new), r')"
      using True enc rec(1) assms(3)
      by (subst upload_loop.simps) (simp add: Let_def)
    have "min CHUNK_SIZE (length file - offset) + (length file - (offset + CHUNK_SIZE))
            = length file - offset"
      by arith
    with len rec(2)
    have "length (concat (?blob # new)) = (length file - offset) + 28 * length (?blob # new)"
      by (simp only: concat.simps length_append list.size) arith
    with step rec(3) show ?thesis
      by (intro exI [of _ "?blob # new"] exI [of _ r']) simp
  qed
qed

text \<open>
  The upload does encrypt slice by slice: each stored blob decrypts, on its own,
  to the slice it was made from, and the slices put together are the file.
\<close>

lemma concat_slices: "concat (slices bs offset) = drop offset bs"
proof (induction bs offset rule: slices.induct)
  case (1 bs offset)
  show ?case
  proof (cases "offset < length bs")
    case True
    have "take CHUNK_SIZE (drop offset bs) @ drop (offset + CHUNK_SIZE) bs = drop offset bs"
      by (metis add.commute append_take_drop_id drop_drop)
    with True 1 show ?thesis
      by (subst slices.simps) simp
  next
    case False
    then show ?thesis by (subst slices.simps) simp
  qed
qed

lemma upload_loop_chunks:
  assumes "gcm_correct P" and "gcm_expands P" and "is_DEK dek"
    and "\<forall>c. post_chunk B fid c = Inr ()"
  shows "\<exists>new r'. upload_loop (webcrypto P) B fid dek file offset r sent = (Inr (), sent @ new, r')
           \<and> map (\<lambda>c. decryptChunk (webcrypto P) c dek) new = map Inr (slices file offset)"
proof (induction "length file - offset" arbitrary: offset r sent rule: less_induct)
  case less
  show ?case
  proof (cases "offset < length file")
    case False
    then show ?thesis by (subst slices.simps) simp
  next
    case True
    let ?chunk = "take CHUNK_SIZE (drop offset file)"
    let ?blob = "map r [0..<12] @ gcm_encrypt P (material dek) (map r [0..<12]) ?chunk"
    have pos: "0 < CHUNK_SIZE" by (simp add: CHUNK_SIZE_def)
    have enc: "encryptChunk (webcrypto P) ?chunk dek r = (Inr ?blob, \<lambda>i. r (i + 12))"
      using assms(3) by (simp add: encryptChunk_webcrypto is_DEK_def)
    have dec: "decryptChunk (webcrypto P) ?blob dek = Inr ?chunk"
      by (rule encrypted_chunk_decrypts [OF assms(1) assms(2) assms(3)])
    from True pos have "length file - (offset + CHUNK_SIZE) < length file - offset" by arith
    from less [OF this, of "\<lambda>i. r (i + 12)" "sent @ [?blob]"]
    obtain new r' where rec:
      "upload_loop (webcrypto P) B fid dek file (offset + CHUNK_SIZE) (\<lambda>i. r (i + 12))
         (sent @ [?blob]) = (Inr (), (sent @ [?blob]) @ new, r')"
      "map (\<lambda>c. decryptChunk (webcrypto P) c dek) new
         = map Inr (slices file (offset + CHUNK_SIZE))"
      by blast
    have step: "upload_loop (webcrypto P) B fid dek file offset r sent =
                  (Inr (), sent @ (?blob # new), r')"
      using True enc rec(1) assms(4)
      by (subst upload_loop.simps) (simp add: Let_def)
    have "map (\<lambda>c. decryptChunk (webcrypto P) c dek) (?blob # new)
            = map Inr (slices file offset)"
      using True dec rec(2) by (subst slices.simps) simp
    with step show ?thesis by blast
  qed
qed

lemma chunks_decrypt_one_by_one:
  assumes "gcm_correct P" and "gcm_expands P" and "is_DEK dek"
    and "\<forall>c. post_chunk B fid c = Inr ()"
  shows "case upload_loop (webcrypto P) B fid dek file 0 r [] of
           (res, sent, r') \<Rightarrow>
             res = Inr () \<and>
             map (\<lambda>c. decryptChunk (webcrypto P) c dek) sent = map Inr (slices file 0) \<and>
             concat (slices file 0) = file"
  using upload_loop_chunks [OF assms, of "file" 0 r "[]"]
  by (auto simp add: concat_slices)

text \<open>
  C3, at a file of more than one chunk. \<^verbatim>\<open>handleDrop\<close> encrypts every slice of
  \<open>CHUNK_SIZE\<close> bytes on its own, so a file longer than \<open>CHUNK_SIZE\<close> is stored as
  two or more blobs, each with its nonce and tag. \<^verbatim>\<open>handleDownload\<close> passes the
  whole stored content to a single \<^verbatim>\<open>decryptChunk\<close>. Whatever that call returns,
  it is not the file: a plaintext it returns is 28 bytes shorter than the
  content, and the content is longer than the file by 28 bytes for every chunk.
\<close>

theorem multi_chunk_download_differs:
  assumes "gcm_expands P" and "gcm_shrinks P" and "is_DEK dek"
    and "\<forall>c. post_chunk B fid c = Inr ()"
    and "CHUNK_SIZE < length file"
  shows "case upload_loop (webcrypto P) B fid dek file 0 r [] of
           (res, sent, r') \<Rightarrow>
             res = Inr () \<and> 2 \<le> length sent \<and>
             decryptChunk (webcrypto P) (combine_chunks sent) dek \<noteq> Inr file"
proof -
  from upload_loop_webcrypto [OF assms(1) assms(3) assms(4), of "file" 0 r "[]"] assms(5)
  obtain new r' where up:
    "upload_loop (webcrypto P) B fid dek file 0 r [] = (Inr (), new, r')"
    "length (concat new) = length file + 28 * length new" "2 \<le> length new"
    by auto
  have "decryptChunk (webcrypto P) (concat new) dek \<noteq> Inr file"
  proof
    assume "decryptChunk (webcrypto P) (concat new) dek = Inr file"
    from decryptChunk_length [OF assms(2) assms(3) this]
    have "length (concat new) = length file + 28" .
    with up(2) up(3) show False by simp
  qed
  with up show ?thesis by (simp add: combine_chunks_def)
qed

theorem multi_chunk_download_differs_witness:
  "gcm_expands simple_primitives \<and> gcm_shrinks simple_primitives \<and> is_DEK simple_dek \<and>
   (\<forall>c. post_chunk simple_backend ''f1'' c = Inr ()) \<and>
   CHUNK_SIZE < length (replicate (CHUNK_SIZE + 1) (0::byte)) \<and>
   (case upload_loop (webcrypto simple_primitives) simple_backend ''f1'' simple_dek
           (replicate (CHUNK_SIZE + 1) 0) 0 (\<lambda>i. 0) [] of
      (res, sent, r') \<Rightarrow>
        res = Inr () \<and> 2 \<le> length sent \<and>
        decryptChunk (webcrypto simple_primitives) (combine_chunks sent) simple_dek
          \<noteq> Inr (replicate (CHUNK_SIZE + 1) 0))"
proof -
  have acks: "\<forall>c. post_chunk simple_backend ''f1'' c = Inr ()"
    by (simp add: simple_backend_def)
  have big: "CHUNK_SIZE < length (replicate (CHUNK_SIZE + 1) (0::byte))"
    by simp
  note main = multi_chunk_download_differs
      [OF simple_expands simple_shrinks simple_dek_is_DEK acks big, of "\<lambda>i. 0"]
  show ?thesis
    by (intro conjI simple_expands simple_shrinks simple_dek_is_DEK acks big main)
qed

lemma handleDrop_uploads_nothing:
  "fst (handleDrop D (webcrypto P) B token files password r)
     \<in> {AuthenticationError, PasswordRequired, UploadFailed} \<and>
   fst (snd (handleDrop D (webcrypto P) B token files password r)) = []"
  by (simp add: handleDrop_def generateDEK_webcrypto wrapDEK_webcrypto
      split: option.split sum.split)

lemma handleDownload_saves_nothing:
  "handleDownload D (webcrypto P) B token password file
     \<in> {Nothing, Notified PasswordRequired, Notified DownloadFailed}"
  by (simp add: handleDownload_def unwrapDEK_webcrypto split: option.split sum.split)

subsection \<open>Key wrapping\<close>

text \<open>
  The same platform operations, called with an IV as \<^verbatim>\<open>encryptChunk\<close> calls
  \<^verbatim>\<open>encrypt\<close>, do wrap and unwrap a DEK.
\<close>

lemma unwrapKey_wrapKey_with_iv:
  assumes "gcm_correct P" and "gcm_expands P" and "iv \<noteq> []"
    and "key_alg kek = ''AES-GCM''" and "valid_key (material kek)"
    and "WrapKey \<in> set (usages kek)" and "UnwrapKey \<in> set (usages kek)"
    and "key_alg dek = ''AES-GCM''" and "extractable dek" and "length (material dek) = 32"
  shows "case w_wrapKey P Raw dek kek (AesGcmParams iv) of
           Inl e \<Rightarrow> False
         | Inr wrapped \<Rightarrow>
             w_unwrapKey P Raw wrapped kek (AesGcmParams iv) (AesKeyParams 256) True
               [Encrypt, Decrypt] =
             Inr \<lparr>key_alg = ''AES-GCM'', extractable = True, usages = [Encrypt, Decrypt],
                  material = material dek\<rparr>"
  using assms
  by (simp add: w_wrapKey_def w_unwrapKey_def normalize_def aes_gcm_encrypt_def
      aes_gcm_decrypt_def w_importKey_def gcm_correct_def gcm_expands_def)

text \<open>
  C2, as the code does it. \<^verbatim>\<open>wrapDEK\<close> and \<^verbatim>\<open>unwrapDEK\<close> pass the bare name
  \<^verbatim>\<open>'AES-GCM'\<close> where the platform requires the parameters of AES-GCM with their
  IV. For every DEK and every KEK the wrap is rejected with a \<open>TypeError\<close>, so
  there is no wrapped DEK to unwrap, and nothing returns the original DEK.
\<close>

theorem unwrap_of_wrap_rejected:
  "(case wrapDEK (webcrypto P) dek kek of
      Inl e \<Rightarrow> Inl e
    | Inr wrapped \<Rightarrow> unwrapDEK (webcrypto P) wrapped kek) = Inl TypeError"
  by (simp add: wrapDEK_webcrypto)

subsection \<open>Wire format\<close>

text \<open>
  A blob of \<^verbatim>\<open>encryptChunk\<close> (a file chunk, a file name) is the 12-byte nonce
  followed by the ciphertext with its 16-byte tag, and \<^verbatim>\<open>decryptChunk\<close> hands
  the first 12 bytes to the cipher as the nonce and the rest as the ciphertext
  with its tag.
\<close>

lemma chunk_wire_layout:
  assumes "gcm_expands P" and "is_DEK k"
  shows "\<exists>nonce ciphertext_and_tag.
           fst (encryptChunk (webcrypto P) p k r) = Inr (nonce @ ciphertext_and_tag)
           \<and> length nonce = 12 \<and> nonce = map r [0..<12]
           \<and> ciphertext_and_tag = gcm_encrypt P (material k) nonce p
           \<and> length ciphertext_and_tag = length p + 16"
  using assms by (simp add: encryptChunk_webcrypto is_DEK_def gcm_expands_def)

lemma decryptChunk_parses_nonce:
  "decryptChunk S blob k = decrypt S (AesGcmParams (take 12 blob)) k (drop 12 blob)"
  by (simp add: decryptChunk_def)

text \<open>
  Even on a platform that accepts the bare name, what \<^verbatim>\<open>wrapDEK\<close> returns is the
  ciphertext and the tag alone, with no nonce in front.
\<close>

lemma wrapDEK_lenient:
  assumes "key_alg kek = ''AES-GCM''" and "WrapKey \<in> set (usages kek)"
    and "key_alg dek = ''AES-GCM''" and "extractable dek"
  shows "wrapDEK (lenient_webcrypto P) dek kek =
           Inr (gcm_encrypt P (material kek) (replicate 12 0) (material dek))"
  using assms
  by (simp add: wrapDEK_def lenient_webcrypto_def webcrypto_def zero_iv_def w_wrapKey_def
      normalize_def aes_gcm_encrypt_def)

text \<open>
  C4, at the wrapped DEK. \<^verbatim>\<open>wrapDEK\<close> draws no nonce and prepends nothing: its
  result is what the platform's \<^verbatim>\<open>wrapKey\<close> answers to the bare name
  \<^verbatim>\<open>'AES-GCM'\<close>, which is a \<open>TypeError\<close>. No wrapped DEK is a nonce followed by a
  ciphertext and a tag.
\<close>

theorem wrapped_dek_without_nonce:
  "wrapDEK S dek kek = wrapKey S Raw dek kek (Name ''AES-GCM'') \<and>
   wrapDEK (webcrypto P) dek kek \<noteq> Inr (nonce @ ciphertext_and_tag)"
  by (simp add: wrapDEK_webcrypto) (simp add: wrapDEK_def)

subsection \<open>Key derivation\<close>

lemma unpaired_surrogates_encode_alike:
  "TextEncoder_encode [0xD800] = TextEncoder_encode [0xDC00]"
  by (simp add: TextEncoder_encode_def lone_def is_lead_def is_trail_def)

lemma unpaired_surrogates_same_KEK:
  "getKEK S password [0xD800] = getKEK S password [0xDC00]"
  by (simp add: getKEK_def unpaired_surrogates_encode_alike)

text \<open>
  C6 as stated fails: two different salts can give the same KEK. The salts
  \<^verbatim>\<open>"\uD800"\<close> and \<^verbatim>\<open>"\uDC00"\<close> are different strings, and \<^verbatim>\<open>TextEncoder\<close> writes
  both as U+FFFD.
\<close>

theorem distinct_salts_same_KEK:
  "[0xD800 :: 16 word] \<noteq> [0xDC00] \<and>
   getKEK (webcrypto simple_primitives) [0x70] [0xD800]
     = getKEK (webcrypto simple_primitives) [0x70] [0xDC00]"
  by (simp add: getKEK_def unpaired_surrogates_encode_alike)

text \<open>
  C6, amended. The KEK is a function of the password and the salt alone (the
  iteration count is fixed at 100000). Two derivations give the same KEK exactly
  when PBKDF2 gives the same 256 bits on the UTF-8 encodings of their passwords
  and salts: always for the same password and salt, and for two salts only as
  far as PBKDF2 tells their encodings apart.
\<close>

theorem KEK_equal_iff_pbkdf2_equal:
  assumes "pbkdf2_length P"
  shows "(getKEK (webcrypto P) pw1 salt1 = getKEK (webcrypto P) pw2 salt2) =
         (pbkdf2 P ''SHA-256'' (TextEncoder_encode pw1) (TextEncoder_encode salt1) 100000 256 =
          pbkdf2 P ''SHA-256'' (TextEncoder_encode pw2) (TextEncoder_encode salt2) 100000 256)"
  by (simp add: getKEK_webcrypto [OF assms])

theorem KEK_equal_iff_pbkdf2_equal_witness:
  "pbkdf2_length simple_primitives \<and>
   getKEK (webcrypto simple_primitives) [0x70] [0x61]
     \<noteq> getKEK (webcrypto simple_primitives) [0x70] [0x62]"
proof -
  have "pbkdf2 simple_primitives ''SHA-256'' (TextEncoder_encode [0x70])
          (TextEncoder_encode [0x61]) 100000 256 \<noteq>
        pbkdf2 simple_primitives ''SHA-256'' (TextEncoder_encode [0x70])
          (TextEncoder_encode [0x62]) 100000 256"
    by (simp add: simple_primitives_def simple_pbkdf2_def TextEncoder_encode_def lone_def
        is_lead_def is_trail_def utf8_bytes_def)
  with KEK_equal_iff_pbkdf2_equal [OF simple_pbkdf2_length, of "[0x70]" "[0x61]" "[0x70]"
      "[0x62]"]
  have "getKEK (webcrypto simple_primitives) [0x70] [0x61]
          \<noteq> getKEK (webcrypto simple_primitives) [0x70] [0x62]"
    by (simp only: simp_thms)
  with simple_pbkdf2_length show ?thesis
    by simp
qed

text \<open>
  C7 as stated fails: \<^verbatim>\<open>getKEK\<close> checks neither the password nor the salt. With
  the empty password and the empty salt it returns a KEK.
\<close>

theorem getKEK_accepts_empty_inputs:
  "getKEK (webcrypto simple_primitives) [] [] =
     Inr \<lparr>key_alg = ''AES-GCM'', extractable = True, usages = [WrapKey, UnwrapKey],
          material = replicate 32 0\<rparr>"
  unfolding getKEK_webcrypto [OF simple_pbkdf2_length]
  by (simp add: TextEncoder_encode_def simple_primitives_def simple_pbkdf2_def)

text \<open>
  C7, amended. For every password, the empty one included, and every salt, of
  any length, \<^verbatim>\<open>getKEK\<close> returns a 256-bit AES-GCM key for wrapping and
  unwrapping; it never fails.
\<close>

theorem getKEK_never_rejects:
  assumes "pbkdf2_length P"
  shows "case getKEK (webcrypto P) password salt of
           Inl e \<Rightarrow> False
         | Inr kek \<Rightarrow>
             key_alg kek = ''AES-GCM'' \<and> length (material kek) = 32 \<and>
             set (usages kek) = {WrapKey, UnwrapKey}"
  using assms by (simp add: getKEK_webcrypto pbkdf2_length_def)

theorem getKEK_never_rejects_witness:
  "pbkdf2_length simple_primitives \<and>
   (case getKEK (webcrypto simple_primitives) [] [] of
      Inl e \<Rightarrow> False
    | Inr kek \<Rightarrow>
        key_alg kek = ''AES-GCM'' \<and> length (material kek) = 32 \<and>
        set (usages kek) = {WrapKey, UnwrapKey})"
  using getKEK_never_rejects [OF simple_pbkdf2_length, of "[]" "[]"] simple_pbkdf2_length
  by (intro conjI)

text \<open>
  An empty password does not reach \<^verbatim>\<open>getKEK\<close> from the two components: they
  stop at the prompt.
\<close>

lemma handlers_require_password:
  assumes "token = Some t" and "t \<noteq> []" and "password = None \<or> password = Some []"
  shows "handleDownload D S B token password file = Notified PasswordRequired"
    and "fst (handleDrop D (webcrypto P) B token files password r) = PasswordRequired"
  using assms
  by (auto simp add: handleDownload_def handleDrop_def generateDEK_webcrypto)

end
